theory Spec2Isabelle
  imports Main
begin

section \<open>The JavaScript runtime the date helper runs on\<close>

text \<open>
  The date helper (\<^verbatim>\<open>utils/dateHelper.js\<close>) is written against the built-in
  \<^verbatim>\<open>Date\<close> object and the \<^verbatim>\<open>date-fns\<close> library. A \<^verbatim>\<open>Date\<close> holds a time value:
  a whole number of milliseconds since the epoch in UTC with magnitude at most
  \<open>8.64e15\<close>, or NaN (an "Invalid Date"). Local-time accessors and mutators go
  through the time zone of the host.
\<close>

datatype jsnum = NaN | Num int

datatype date = InvalidDate | Date int

abbreviation msPerSecond :: int where "msPerSecond \<equiv> 1000"
abbreviation msPerMinute :: int where "msPerMinute \<equiv> 60000"
abbreviation msPerHour :: int where "msPerHour \<equiv> 3600000"
abbreviation msPerDay :: int where "msPerDay \<equiv> 86400000"
abbreviation maxTimeValue :: int where "maxTimeValue \<equiv> 8640000000000000"

definition TimeClip :: "int \<Rightarrow> date" where
  "TimeClip t = (if \<bar>t\<bar> > maxTimeValue then InvalidDate else Date t)"

definition Day :: "int \<Rightarrow> int" where
  "Day t = t div msPerDay"

definition TimeWithinDay :: "int \<Rightarrow> int" where
  "TimeWithinDay t = t mod msPerDay"

definition WeekDay :: "int \<Rightarrow> int" where
  "WeekDay t = (Day t + 4) mod 7"

definition HourFromTime :: "int \<Rightarrow> int" where
  "HourFromTime t = (t div msPerHour) mod 24"

definition MinFromTime :: "int \<Rightarrow> int" where
  "MinFromTime t = (t div msPerMinute) mod 60"

definition SecFromTime :: "int \<Rightarrow> int" where
  "SecFromTime t = (t div msPerSecond) mod 60"

definition msFromTime :: "int \<Rightarrow> int" where
  "msFromTime t = t mod msPerSecond"

definition MakeTime :: "int \<Rightarrow> int \<Rightarrow> int \<Rightarrow> int \<Rightarrow> int" where
  "MakeTime h m s ms = h * msPerHour + m * msPerMinute + s * msPerSecond + ms"

definition MakeDate :: "int \<Rightarrow> int \<Rightarrow> int" where
  "MakeDate dy tm = dy * msPerDay + tm"

text \<open>
  The time zone of the host, as the runtime sees it: the offset of local time from UTC
  at each UTC instant, and the UTC instant the runtime takes for each local time value.
  Both are given by the host. Where the clocks of the zone are put forward a stretch of
  local time is skipped, and after \<^verbatim>\<open>UTC\<close> and \<^verbatim>\<open>LocalTime\<close> such a local time comes
  back as a later one; where they are put back a stretch of local time occurs twice.
\<close>

record zone =
  offsetAt :: "int \<Rightarrow> int"
  utcOf :: "int \<Rightarrow> int"

definition LocalTime :: "zone \<Rightarrow> int \<Rightarrow> int" where
  "LocalTime tz t = t + offsetAt tz t"

definition UTC :: "zone \<Rightarrow> int \<Rightarrow> int" where
  "UTC tz t = utcOf tz t"

text \<open>
  A zone whose offset never changes (UTC, America/Bogota), and a zone whose offset
  changes once, at the instant \<open>changeAt\<close>, from \<open>offsetBefore\<close> to
  \<open>offsetAfter\<close>: a local time that the change skips or repeats is taken with the
  offset before the change, as
  the runtime's \<^verbatim>\<open>UTC(t)\<close> prescribes.
\<close>

definition fixedZone :: "int \<Rightarrow> zone" where
  "fixedZone offset = \<lparr>offsetAt = (\<lambda>_. offset), utcOf = (\<lambda>t. t - offset)\<rparr>"

definition zoneWithChange :: "int \<Rightarrow> int \<Rightarrow> int \<Rightarrow> zone" where
  "zoneWithChange offsetBefore offsetAfter changeAt =
     \<lparr>offsetAt = (\<lambda>t. if t < changeAt then offsetBefore else offsetAfter),
      utcOf = (\<lambda>t. if t < changeAt + max offsetBefore offsetAfter
                    then t - offsetBefore else t - offsetAfter)\<rparr>"

text \<open>
  \<^verbatim>\<open>d.getDay()\<close>, and the mutators the code calls. A mutator on an Invalid Date, or
  with a NaN argument, leaves an Invalid Date. The hour, minute, second and millisecond
  arguments are not range-checked by the runtime: \<^verbatim>\<open>setHours(25)\<close> is 01:00 of the
  following day.
\<close>

definition getDay :: "zone \<Rightarrow> date \<Rightarrow> jsnum" where
  "getDay tz d = (case d of InvalidDate \<Rightarrow> NaN | Date t \<Rightarrow> Num (WeekDay (LocalTime tz t)))"

text \<open>
  \<^verbatim>\<open>d.setDate(d.getDate() + n)\<close>: the runtime computes
  \<^verbatim>\<open>MakeDay(year, month, DateFromTime(t) + n)\<close>, which is the day number of the first of
  the month plus \<^verbatim>\<open>DateFromTime(t) + n - 1\<close>, that is \<open>Day t + n\<close>; the time within the
  day is kept. The idiom is modelled as one operation.
\<close>

definition setDate_getDate_plus :: "zone \<Rightarrow> date \<Rightarrow> jsnum \<Rightarrow> date" where
  "setDate_getDate_plus tz d n =
     (case (d, n) of
        (Date t, Num k) \<Rightarrow>
          (let lt = LocalTime tz t
           in TimeClip (UTC tz (MakeDate (Day lt + k) (TimeWithinDay lt))))
      | _ \<Rightarrow> InvalidDate)"

definition Date_setHours4 :: "zone \<Rightarrow> date \<Rightarrow> int \<Rightarrow> int \<Rightarrow> int \<Rightarrow> int \<Rightarrow> date" where
  "Date_setHours4 tz d h m s ms =
     (case d of
        InvalidDate \<Rightarrow> InvalidDate
      | Date t \<Rightarrow> TimeClip (UTC tz (MakeDate (Day (LocalTime tz t)) (MakeTime h m s ms))))"

definition Date_setHours :: "zone \<Rightarrow> date \<Rightarrow> jsnum \<Rightarrow> date" where
  "Date_setHours tz d h =
     (case (d, h) of
        (Date t, Num hh) \<Rightarrow>
          (let lt = LocalTime tz t
           in TimeClip (UTC tz (MakeDate (Day lt)
                (MakeTime hh (MinFromTime lt) (SecFromTime lt) (msFromTime lt)))))
      | _ \<Rightarrow> InvalidDate)"

definition Date_setMinutes :: "zone \<Rightarrow> date \<Rightarrow> jsnum \<Rightarrow> date" where
  "Date_setMinutes tz d m =
     (case (d, m) of
        (Date t, Num mm) \<Rightarrow>
          (let lt = LocalTime tz t
           in TimeClip (UTC tz (MakeDate (Day lt)
                (MakeTime (HourFromTime lt) mm (SecFromTime lt) (msFromTime lt)))))
      | _ \<Rightarrow> InvalidDate)"

definition Date_setSeconds :: "zone \<Rightarrow> date \<Rightarrow> jsnum \<Rightarrow> date" where
  "Date_setSeconds tz d s =
     (case (d, s) of
        (Date t, Num ss) \<Rightarrow>
          (let lt = LocalTime tz t
           in TimeClip (UTC tz (MakeDate (Day lt)
                (MakeTime (HourFromTime lt) (MinFromTime lt) ss (msFromTime lt)))))
      | _ \<Rightarrow> InvalidDate)"

definition Date_setMilliseconds :: "zone \<Rightarrow> date \<Rightarrow> jsnum \<Rightarrow> date" where
  "Date_setMilliseconds tz d ms =
     (case (d, ms) of
        (Date t, Num mss) \<Rightarrow>
          (let lt = LocalTime tz t
           in TimeClip (UTC tz (MakeDate (Day lt)
                (MakeTime (HourFromTime lt) (MinFromTime lt) (SecFromTime lt) mss))))
      | _ \<Rightarrow> InvalidDate)"

subsection \<open>The date-fns functions the helper imports\<close>

text \<open>
  Each of them copies its argument and calls the \<^verbatim>\<open>Date\<close> method of the same name.
  \<^verbatim>\<open>addDays\<close> returns the copy unchanged for an amount of 0; \<^verbatim>\<open>addWeeks\<close> is
  \<^verbatim>\<open>addDays\<close> of seven times the amount; \<^verbatim>\<open>addMinutes\<close> adds to the time value;
  \<^verbatim>\<open>startOfWeek\<close> steps back to the last day whose index is \<^verbatim>\<open>weekStartsOn\<close> and
  sets the local time to midnight.
\<close>

definition addDays :: "zone \<Rightarrow> date \<Rightarrow> int \<Rightarrow> date" where
  "addDays tz d amount = (if amount = 0 then d else setDate_getDate_plus tz d (Num amount))"

definition addWeeks :: "zone \<Rightarrow> date \<Rightarrow> int \<Rightarrow> date" where
  "addWeeks tz d amount = addDays tz d (amount * 7)"

definition startOfWeek :: "zone \<Rightarrow> date \<Rightarrow> int \<Rightarrow> date" where
  "startOfWeek tz d weekStartsOn =
     (case getDay tz d of
        NaN \<Rightarrow> InvalidDate
      | Num dy \<Rightarrow>
          (let diff = (if dy < weekStartsOn then 7 else 0) + dy - weekStartsOn
           in Date_setHours4 tz (setDate_getDate_plus tz d (Num (- diff))) 0 0 0 0))"

definition addMinutes :: "date \<Rightarrow> int \<Rightarrow> date" where
  "addMinutes d amount =
     (case d of InvalidDate \<Rightarrow> InvalidDate | Date t \<Rightarrow> TimeClip (t + amount * msPerMinute))"

definition setHours :: "zone \<Rightarrow> date \<Rightarrow> jsnum \<Rightarrow> date" where
  "setHours tz d hours = Date_setHours tz d hours"

definition setMinutes :: "zone \<Rightarrow> date \<Rightarrow> jsnum \<Rightarrow> date" where
  "setMinutes tz d minutes = Date_setMinutes tz d minutes"

definition setSeconds :: "zone \<Rightarrow> date \<Rightarrow> jsnum \<Rightarrow> date" where
  "setSeconds tz d seconds = Date_setSeconds tz d seconds"

definition setMilliseconds :: "zone \<Rightarrow> date \<Rightarrow> jsnum \<Rightarrow> date" where
  "setMilliseconds tz d ms = Date_setMilliseconds tz d ms"

subsection \<open>Strings and numbers\<close>

text \<open>
  A JavaScript string is modelled by its UTF-8 bytes; the accented letters of the
  Spanish texts are two bytes each. \<^verbatim>\<open>s.split(':')\<close> cuts at every colon and always
  returns at least one piece.
\<close>

abbreviation a_acute :: string where "a_acute \<equiv> [CHR 0xC3, CHR 0xA1]"
abbreviation e_acute :: string where "e_acute \<equiv> [CHR 0xC3, CHR 0xA9]"
abbreviation i_acute :: string where "i_acute \<equiv> [CHR 0xC3, CHR 0xAD]"
abbreviation o_acute :: string where "o_acute \<equiv> [CHR 0xC3, CHR 0xB3]"

fun split_colon :: "string \<Rightarrow> string list" where
  "split_colon [] = [[]]"
| "split_colon (c # cs) =
     (if c = CHR '':'' then [] # split_colon cs
      else (case split_colon cs of p # ps \<Rightarrow> (c # p) # ps | [] \<Rightarrow> [[c]]))"

definition isDigit :: "char \<Rightarrow> bool" where
  "isDigit c = (48 \<le> (of_char c :: nat) \<and> (of_char c :: nat) \<le> 57)"

definition digitValue :: "char \<Rightarrow> int" where
  "digitValue c = int (of_char c) - 48"

definition decimalValue :: "string \<Rightarrow> int" where
  "decimalValue s = foldl (\<lambda>acc c. acc * 10 + digitValue c) 0 s"

text \<open>
  \<^verbatim>\<open>Number(s)\<close> as the time parser uses it. The empty string is 0 and a string of
  decimal digits is its value. For every other string (signs, fractions, exponents,
  other radixes, white space, \<^verbatim>\<open>Infinity\<close>, text that is no number) the value is left to
  the parameter \<open>other\<close>, so that nothing proved below depends on it. The hour and the
  minute are only ever passed to \<^verbatim>\<open>setHours\<close> and \<^verbatim>\<open>setMinutes\<close>, which truncate
  their argument to a whole number and give an Invalid Date for NaN and the infinities:
  \<open>other\<close> returns the number as they see it.
\<close>

definition Number :: "(string \<Rightarrow> jsnum) \<Rightarrow> string \<Rightarrow> jsnum" where
  "Number other s =
     (if s = [] then Num 0
      else if list_all isDigit s then Num (decimalValue s)
      else other s)"

section \<open>utils/dateHelper.js\<close>

text \<open>
  \<^verbatim>\<open>getNextWeekStart(referenceDate = new Date())\<close>. The job never passes a reference
  date: the reference is the clock reading \<open>now\<close>.
\<close>

definition getNextWeekStart :: "zone \<Rightarrow> date \<Rightarrow> date" where
  "getNextWeekStart tz referenceDate = startOfWeek tz (addWeeks tz referenceDate 1) 1"

text \<open>
  \<^verbatim>\<open>const [hours, minutes] = timeString.split(':').map(Number)\<close>: a missing second
  piece leaves \<^verbatim>\<open>minutes\<close> undefined, which \<^verbatim>\<open>setMinutes\<close> reads as NaN. Pieces after
  the second are dropped. Nothing is validated and nothing is thrown.
\<close>

definition parseTimeToDate :: "(string \<Rightarrow> jsnum) \<Rightarrow> zone \<Rightarrow> date \<Rightarrow> string \<Rightarrow> date" where
  "parseTimeToDate other tz baseDate timeString =
     (let parts = map (Number other) (split_colon timeString);
          hours = (case parts of h # _ \<Rightarrow> h | [] \<Rightarrow> NaN);
          minutes = (case parts of _ # m # _ \<Rightarrow> m | _ \<Rightarrow> NaN);
          date0 = baseDate;
          date1 = setHours tz date0 hours;
          date2 = setMinutes tz date1 minutes;
          date3 = setSeconds tz date2 (Num 0);
          date4 = setMilliseconds tz date3 (Num 0)
      in date4)"

definition calculateEndDate :: "date \<Rightarrow> int \<Rightarrow> date" where
  "calculateEndDate startDate duration = addMinutes startDate duration"

text \<open>
  \<^verbatim>\<open>days[dayName] ?? -1\<close> on an object literal. A name that is no key of the literal
  but names a member every object inherits (\<^verbatim>\<open>constructor\<close>, \<^verbatim>\<open>toString\<close>, ...) finds
  that member, a function or an object, and \<^verbatim>\<open>??\<close> keeps it.
\<close>

datatype jsvalue = NumV int | ObjectV

definition days :: "(string \<times> int) list" where
  "days =
     [(''Sunday'', 0), (''Domingo'', 0),
      (''Monday'', 1), (''Lunes'', 1),
      (''Tuesday'', 2), (''Martes'', 2),
      (''Wednesday'', 3), (''Mi'' @ e_acute @ ''rcoles'', 3),
      (''Thursday'', 4), (''Jueves'', 4),
      (''Friday'', 5), (''Viernes'', 5),
      (''Saturday'', 6), (''S'' @ a_acute @ ''bado'', 6)]"

definition objectPrototypeKeys :: "string list" where
  "objectPrototypeKeys =
     [''constructor'', ''__defineGetter__'', ''__defineSetter__'', ''hasOwnProperty'',
      ''__lookupGetter__'', ''__lookupSetter__'', ''isPrototypeOf'',
      ''propertyIsEnumerable'', ''toString'', ''valueOf'', ''__proto__'',
      ''toLocaleString'']"

definition dayNameToIndex :: "string \<Rightarrow> jsvalue" where
  "dayNameToIndex dayName =
     (case map_of days dayName of
        Some i \<Rightarrow> NumV i
      | None \<Rightarrow> (if dayName \<in> set objectPrototypeKeys then ObjectV else NumV (- 1)))"

datatype jsexn =
    Error string
  | RangeError string
  | TypeError string
  | APIResponseError string string
  | NotionError string jsexn

text \<open>
  \<^verbatim>\<open>getNextWeekDayDate(dayName)\<close>, with the clock reading passed in. An inherited
  member is not \<^verbatim>\<open>-1\<close>, so nothing is thrown for it; \<^verbatim>\<open>dayIndex - 1\<close> is then NaN,
  \<^verbatim>\<open>NaN < 0\<close> is false and \<^verbatim>\<open>setDate\<close> leaves an Invalid Date.
\<close>

definition getNextWeekDayDate :: "zone \<Rightarrow> int \<Rightarrow> string \<Rightarrow> jsexn + date" where
  "getNextWeekDayDate tz now dayName =
     (let nextWeekStart = getNextWeekStart tz (Date now);
          dayIndex = dayNameToIndex dayName
      in if dayIndex = NumV (- 1)
         then Inl (Error (''D'' @ i_acute @ ''a no v'' @ a_acute @ ''lido: '' @ dayName))
         else
           (let daysToAdd =
                  (case dayIndex of
                     NumV i \<Rightarrow> (let d = i - 1 in if d < 0 then Num (d + 7) else Num d)
                   | ObjectV \<Rightarrow> NaN);
                targetDate = setDate_getDate_plus tz nextWeekStart daysToAdd
            in Inr (Date_setHours4 tz targetDate 0 0 0 0)))"

text \<open>
  \<^verbatim>\<open>date.toISOString()\<close> throws a RangeError on an Invalid Date. The text it returns
  otherwise, \<^verbatim>\<open>YYYY-MM-DDTHH:mm:ss.sssZ\<close>, names one UTC time value and is read back to
  it by \<^verbatim>\<open>Date.parse\<close>; it is represented by that time value.
\<close>

datatype isoString = IsoUTC int

definition formatForNotion :: "date \<Rightarrow> jsexn + isoString" where
  "formatForNotion d =
     (case d of InvalidDate \<Rightarrow> Inl (RangeError ''Invalid time value'') | Date t \<Rightarrow> Inr (IsoUTC t))"

record notionDate =
  start :: isoString
  end' :: isoString
  time_zone :: string

text \<open>\<^verbatim>\<open>new Date(d.getTime() + ms)\<close>.\<close>

definition newDate_getTime_plus :: "date \<Rightarrow> int \<Rightarrow> date" where
  "newDate_getTime_plus d ms = (case d of InvalidDate \<Rightarrow> InvalidDate | Date t \<Rightarrow> TimeClip (t + ms))"

definition offsetHours :: int where
  "offsetHours = - 1"

definition createNotionDateObject :: "date \<Rightarrow> date \<Rightarrow> string \<Rightarrow> jsexn + notionDate" where
  "createNotionDateObject startDate endDate timezone =
     (let adjustedStart = newDate_getTime_plus startDate (offsetHours * 60 * 60 * 1000);
          adjustedEnd = newDate_getTime_plus endDate (offsetHours * 60 * 60 * 1000)
      in case formatForNotion adjustedStart of
           Inl e \<Rightarrow> Inl e
         | Inr s \<Rightarrow>
             (case formatForNotion adjustedEnd of
                Inl e \<Rightarrow> Inl e
              | Inr e \<Rightarrow> Inr \<lparr>start = s, end' = e, time_zone = timezone\<rparr>))"

section \<open>utils/errorHandler.js\<close>

text \<open>
  Calls to the logger are left out throughout: the logging sink is not part of what is
  verified and no result depends on it. What the program does to the outside world is
  recorded as a trace of effects; the outside world answers each effect as a function
  of the trace so far.
\<close>

fun messageOf :: "jsexn \<Rightarrow> string" where
  "messageOf (Error m) = m"
| "messageOf (RangeError m) = m"
| "messageOf (TypeError m) = m"
| "messageOf (APIResponseError c m) = m"
| "messageOf (NotionError m original) = m"

fun codeOf :: "jsexn \<Rightarrow> string option" where
  "codeOf (APIResponseError c m) = Some c"
| "codeOf _ = None"

text \<open>\<^verbatim>\<open>handleError\<close> logs and then always re-throws its argument.\<close>

definition handleError :: "jsexn \<Rightarrow> string \<Rightarrow> jsexn + unit" where
  "handleError error context = Inl error"

definition processNotionError :: "jsexn \<Rightarrow> string" where
  "processNotionError error =
     (if codeOf error = Some ''object_not_found''
      then ''Base de datos o p'' @ a_acute @ ''gina no encontrada. Verifica los IDs en tu .env''
      else if codeOf error = Some ''unauthorized''
      then ''Token de API inv'' @ a_acute @ ''lido o sin permisos. Verifica tu NOTION_API_KEY''
      else if codeOf error = Some ''restricted_resource''
      then ''La integraci'' @ o_acute @ ''n no tiene acceso a este recurso. ''
           @ ''Comparte la base de datos con tu integraci'' @ o_acute @ ''n''
      else if codeOf error = Some ''validation_error''
      then ''Error de validaci'' @ o_acute @ ''n: '' @ messageOf error
      else if messageOf error \<noteq> [] then messageOf error
      else ''Error desconocido de Notion'')"

section \<open>services/notionService.js: data\<close>

record notionProperty =
  title :: "string list option"
  select :: "string option"
  rich_text :: "string list option"
  number :: "int option"

text \<open>
  A page of the template database: its id and the five properties the parser reads,
  each of which may be missing. A number property holds whole minutes.
\<close>

record page =
  page_id :: string
  prop_Name :: "notionProperty option"
  prop_Day :: "notionProperty option"
  prop_Time :: "notionProperty option"
  prop_Duration :: "notionProperty option"
  prop_Notes :: "notionProperty option"

record templateTask =
  task_id :: string
  task_name :: string
  task_day :: string
  task_time :: string
  task_duration :: int
  task_notes :: string

record event =
  event_name :: string
  event_date :: notionDate
  event_notes :: string

text \<open>The argument of \<^verbatim>\<open>notionClient.pages.create\<close>.\<close>

record createRequest =
  parent_database_id :: string
  Name_title_content :: string
  Date_date :: notionDate
  Notes_rich_text_content :: string

datatype effect =
    NewDate
  | SetTimeout int
  | DatabasesRetrieve string
  | DatabasesQuery string
  | PagesCreate createRequest

type_synonym world = "effect list"

text \<open>
  The host: its time zone, \<^verbatim>\<open>Number\<close> outside the digit strings, the clock, and the
  answers of the remote API (a thrown error, or the payload).
\<close>

record host =
  hostZone :: zone
  numberOther :: "string \<Rightarrow> jsnum"
  clock :: "world \<Rightarrow> int"
  databasesRetrieve :: "world \<Rightarrow> string \<Rightarrow> jsexn option"
  databasesQuery :: "world \<Rightarrow> string \<Rightarrow> jsexn + page list"
  pagesCreate :: "world \<Rightarrow> createRequest \<Rightarrow> jsexn + string"

text \<open>\<^verbatim>\<open>config/environment.js\<close> and \<^verbatim>\<open>config/notion.js\<close>: the process-wide settings.\<close>

record config =
  apiKey :: string
  templateDbId :: string
  calendarDbId :: string
  loggingLevel :: string
  timezone :: string

subsection \<open>retryOperation\<close>

text \<open>
  The loop of \<^verbatim>\<open>retryOperation(fn, maxRetries = 3, delay = 1000)\<close>, with the loop
  variable \<open>i\<close> and \<open>lastError\<close> (undefined at first, hence an option) as arguments.
  The wait between attempts is the effect \<open>SetTimeout\<close>.
\<close>

function retryLoop ::
  "(world \<Rightarrow> (jsexn + 'a) \<times> world) \<Rightarrow> int \<Rightarrow> int \<Rightarrow> int \<Rightarrow> jsexn option \<Rightarrow> world
     \<Rightarrow> (jsexn option + 'a) \<times> world" where
  "retryLoop fn maxRetries delay i lastError w =
     (if i < maxRetries
      then (case fn w of
              (Inr r, w') \<Rightarrow> (Inr r, w')
            | (Inl error, w') \<Rightarrow>
                retryLoop fn maxRetries delay (i + 1) (Some error)
                  (if i < maxRetries - 1 then w' @ [SetTimeout (delay * (i + 1))] else w'))
      else (Inl lastError, w))"
  by pat_completeness auto
termination
  by (relation "measure (\<lambda>(fn, maxRetries, delay, i, lastError, w). nat (maxRetries - i))") auto

definition retryOperation ::
  "(world \<Rightarrow> (jsexn + 'a) \<times> world) \<Rightarrow> int \<Rightarrow> int \<Rightarrow> world \<Rightarrow> (jsexn option + 'a) \<times> world" where
  "retryOperation fn maxRetries delay w = retryLoop fn maxRetries delay 0 None w"

section \<open>services/notionService.js: operations\<close>

definition extractTitle :: "notionProperty option \<Rightarrow> string" where
  "extractTitle property =
     (case property of
        None \<Rightarrow> []
      | Some p \<Rightarrow> (case title p of None \<Rightarrow> [] | Some [] \<Rightarrow> [] | Some (x # _) \<Rightarrow> x))"

definition extractSelect :: "notionProperty option \<Rightarrow> string" where
  "extractSelect property =
     (case property of
        None \<Rightarrow> []
      | Some p \<Rightarrow> (case select p of None \<Rightarrow> [] | Some nm \<Rightarrow> nm))"

definition extractText :: "notionProperty option \<Rightarrow> string" where
  "extractText property =
     (case property of
        None \<Rightarrow> []
      | Some p \<Rightarrow> (case rich_text p of None \<Rightarrow> [] | Some [] \<Rightarrow> [] | Some (x # _) \<Rightarrow> x))"

definition extractNumber :: "notionProperty option \<Rightarrow> int option" where
  "extractNumber property =
     (case property of
        None \<Rightarrow> None
      | Some p \<Rightarrow> (case number p of None \<Rightarrow> None | Some n \<Rightarrow> Some n))"

text \<open>\<^verbatim>\<open>x || 60\<close> takes 60 when \<open>x\<close> is null or 0, and \<^verbatim>\<open>s || ''\<close> is \<open>s\<close>.\<close>

definition parseTemplatePage :: "page \<Rightarrow> templateTask" where
  "parseTemplatePage pg =
     \<lparr>task_id = page_id pg,
      task_name = extractTitle (prop_Name pg),
      task_day = extractSelect (prop_Day pg),
      task_time = extractText (prop_Time pg),
      task_duration =
        (case extractNumber (prop_Duration pg) of
           None \<Rightarrow> 60
         | Some n \<Rightarrow> if n = 0 then 60 else n),
      task_notes = (let t = extractText (prop_Notes pg) in if t = [] then [] else t)\<rparr>"

text \<open>
  The catch blocks of the service read \<^verbatim>\<open>error.code\<close>: on the undefined that
  \<^verbatim>\<open>retryOperation\<close> throws when it made no attempt, that read is itself a TypeError.
\<close>

definition wrapNotionError :: "string \<Rightarrow> jsexn option \<Rightarrow> jsexn" where
  "wrapNotionError prefix thrown =
     (case thrown of
        None \<Rightarrow> TypeError ''Cannot read properties of undefined (reading 'code')''
      | Some error \<Rightarrow> NotionError (prefix @ processNotionError error) error)"

definition getTemplateTasks :: "config \<Rightarrow> host \<Rightarrow> world \<Rightarrow> (jsexn + templateTask list) \<times> world" where
  "getTemplateTasks cfg h w =
     (case retryOperation
             (\<lambda>w. (databasesQuery h w (templateDbId cfg), w @ [DatabasesQuery (templateDbId cfg)]))
             3 1000 w of
        (Inr results, w') \<Rightarrow> (Inr (map parseTemplatePage results), w')
      | (Inl thrown, w') \<Rightarrow>
          (Inl (wrapNotionError ''No se pudieron obtener las tareas de plantilla: '' thrown), w'))"

definition createRequestOf :: "config \<Rightarrow> event \<Rightarrow> createRequest" where
  "createRequestOf cfg eventData =
     \<lparr>parent_database_id = calendarDbId cfg,
      Name_title_content = event_name eventData,
      Date_date =
        \<lparr>start = start (event_date eventData),
         end' = end' (event_date eventData),
         time_zone =
           (if time_zone (event_date eventData) \<noteq> [] then time_zone (event_date eventData)
            else ''America/Mexico_City'')\<rparr>,
      Notes_rich_text_content = (if event_notes eventData \<noteq> [] then event_notes eventData else [])\<rparr>"

definition createCalendarEvent :: "config \<Rightarrow> host \<Rightarrow> event \<Rightarrow> world \<Rightarrow> (jsexn + string) \<times> world" where
  "createCalendarEvent cfg h eventData w =
     (case retryOperation
             (\<lambda>w. (pagesCreate h w (createRequestOf cfg eventData),
                    w @ [PagesCreate (createRequestOf cfg eventData)]))
             3 1000 w of
        (Inr response, w') \<Rightarrow> (Inr response, w')
      | (Inl thrown, w') \<Rightarrow> (Inl (wrapNotionError ''No se pudo crear el evento: '' thrown), w'))"

record batchResult =
  batch_success :: "string list"
  batch_errors :: "(event \<times> jsexn) list"

fun createCalendarEventsBatch_loop ::
  "config \<Rightarrow> host \<Rightarrow> event list \<Rightarrow> string list \<Rightarrow> (event \<times> jsexn) list \<Rightarrow> world
     \<Rightarrow> batchResult \<times> world" where
  "createCalendarEventsBatch_loop cfg h [] results errors w =
     (\<lparr>batch_success = results, batch_errors = errors\<rparr>, w)"
| "createCalendarEventsBatch_loop cfg h (ev # evs) results errors w =
     (case createCalendarEvent cfg h ev w of
        (Inr result, w') \<Rightarrow> createCalendarEventsBatch_loop cfg h evs (results @ [result]) errors w'
      | (Inl error, w') \<Rightarrow>
          createCalendarEventsBatch_loop cfg h evs results (errors @ [(ev, error)]) w')"

definition createCalendarEventsBatch :: "config \<Rightarrow> host \<Rightarrow> event list \<Rightarrow> world \<Rightarrow> batchResult \<times> world" where
  "createCalendarEventsBatch cfg h events w = createCalendarEventsBatch_loop cfg h events [] [] w"

definition verifyConnection :: "config \<Rightarrow> host \<Rightarrow> world \<Rightarrow> (jsexn + bool) \<times> world" where
  "verifyConnection cfg h w =
     (let w1 = w @ [DatabasesRetrieve (templateDbId cfg)]
      in case databasesRetrieve h w (templateDbId cfg) of
           Some error \<Rightarrow>
             (Inl (wrapNotionError (''Verificaci'' @ o_acute @ ''n de conexi'' @ o_acute @ ''n fallida: '')
                     (Some error)), w1)
         | None \<Rightarrow>
             (let w2 = w1 @ [DatabasesRetrieve (calendarDbId cfg)]
              in case databasesRetrieve h w1 (calendarDbId cfg) of
                   Some error \<Rightarrow>
                     (Inl (wrapNotionError
                             (''Verificaci'' @ o_acute @ ''n de conexi'' @ o_acute @ ''n fallida: '')
                             (Some error)), w2)
                 | None \<Rightarrow> (Inr True, w2)))"

section \<open>jobs/generateWeek.js\<close>

text \<open>
  \<^verbatim>\<open>transformTaskToEvent(task)\<close>. Reading the clock (\<^verbatim>\<open>new Date()\<close> inside
  \<^verbatim>\<open>getNextWeekStart\<close>) is an effect. The time-zone argument of
  \<^verbatim>\<open>createNotionDateObject\<close> is not passed, so its default is used. The catch block
  logs and re-throws.
\<close>

definition transformTaskToEvent :: "host \<Rightarrow> templateTask \<Rightarrow> world \<Rightarrow> (jsexn + event) \<times> world" where
  "transformTaskToEvent h task w =
     (let now = clock h w;
          w' = w @ [NewDate]
      in case getNextWeekDayDate (hostZone h) now (task_day task) of
           Inl error \<Rightarrow> (Inl error, w')
         | Inr dayDate \<Rightarrow>
             (let startDate = parseTimeToDate (numberOther h) (hostZone h) dayDate (task_time task);
                  endDate = calculateEndDate startDate (task_duration task)
              in case createNotionDateObject startDate endDate ''America/Bogota'' of
                   Inl error \<Rightarrow> (Inl error, w')
                 | Inr notionDate \<Rightarrow>
                     (Inr \<lparr>event_name = task_name task,
                           event_date = notionDate,
                           event_notes =
                             (if task_notes task \<noteq> [] then task_notes task
                              else ''Generado autom'' @ a_acute @ ''ticamente desde plantilla'')\<rparr>,
                      w')))"

text \<open>
  The result object of \<^verbatim>\<open>generateWeek\<close>. The elapsed time (\<^verbatim>\<open>duration\<close>) is left
  out. \<^verbatim>\<open>message\<close>, \<^verbatim>\<open>errors\<close> and \<^verbatim>\<open>error\<close> are present on some paths only.
\<close>

record weekResult =
  success :: bool
  created :: nat
  failed :: nat
  message :: "string option"
  errors :: "(string \<times> string) list option"
  error :: "string option"

fun transformLoop ::
  "host \<Rightarrow> templateTask list \<Rightarrow> event list \<Rightarrow> (templateTask \<times> jsexn) list \<Rightarrow> world
     \<Rightarrow> (event list \<times> (templateTask \<times> jsexn) list) \<times> world" where
  "transformLoop h [] events transformErrors w = ((events, transformErrors), w)"
| "transformLoop h (task # tasks) events transformErrors w =
     (case transformTaskToEvent h task w of
        (Inr ev, w') \<Rightarrow> transformLoop h tasks (events @ [ev]) transformErrors w'
      | (Inl err, w') \<Rightarrow> transformLoop h tasks events (transformErrors @ [(task, err)]) w')"

text \<open>The body of the \<^verbatim>\<open>try\<close> block.\<close>

definition generateWeek_try :: "config \<Rightarrow> host \<Rightarrow> world \<Rightarrow> (jsexn + weekResult) \<times> world" where
  "generateWeek_try cfg h w =
     (case verifyConnection cfg h w of
        (Inl err, w1) \<Rightarrow> (Inl err, w1)
      | (Inr _, w1) \<Rightarrow>
          (case getTemplateTasks cfg h w1 of
             (Inl err, w2) \<Rightarrow> (Inl err, w2)
           | (Inr templateTasks, w2) \<Rightarrow>
               if length templateTasks = 0
               then (Inr \<lparr>success = True, created = 0, failed = 0,
                          message = Some ''No hay tareas de plantilla para procesar'',
                          errors = None, error = None\<rparr>, w2)
               else
                 (case transformLoop h templateTasks [] [] w2 of
                    ((events, transformErrors), w3) \<Rightarrow>
                      (case createCalendarEventsBatch cfg h events w3 of
                         (result, w4) \<Rightarrow>
                           (Inr \<lparr>success = True,
                                 created = length (batch_success result),
                                 failed = length (batch_errors result),
                                 message = None,
                                 errors = Some (map (\<lambda>e. (event_name (fst e), messageOf (snd e)))
                                                  (batch_errors result)),
                                 error = None\<rparr>, w4)))))"

text \<open>
  \<^verbatim>\<open>generateWeek\<close>: the catch block calls \<^verbatim>\<open>handleError\<close> and, were that to return,
  would return the failure object.
\<close>

definition generateWeek :: "config \<Rightarrow> host \<Rightarrow> world \<Rightarrow> (jsexn + weekResult) \<times> world" where
  "generateWeek cfg h w =
     (case generateWeek_try cfg h w of
        (Inr result, w') \<Rightarrow> (Inr result, w')
      | (Inl err, w') \<Rightarrow>
          (case handleError err ''GenerateWeek'' of
             Inl thrown \<Rightarrow> (Inl thrown, w')
           | Inr _ \<Rightarrow>
               (Inr \<lparr>success = False, created = 0, failed = 0, message = None,
                     errors = None, error = Some (messageOf err)\<rparr>, w')))"

section \<open>Notions used in the statements\<close>


text \<open>
  The Monday, at local midnight, of the Monday-to-Sunday week that contains the local
  time \<open>lt\<close>: the day of \<open>lt\<close> moved back by the number of days since Monday. Then,
  in the specification's words, the Monday of the week after the week containing the
  reference instant, and the target date: that Monday plus
  \<open>(weekdayIndex - 1 + 7) mod 7\<close> days. All three are local time values.
\<close>

definition weekMonday :: "int \<Rightarrow> int" where
  "weekMonday lt = (Day lt - (WeekDay lt + 6) mod 7) * msPerDay"

definition nextWeekMonday :: "zone \<Rightarrow> int \<Rightarrow> int" where
  "nextWeekMonday tz now = weekMonday (LocalTime tz now) + 7 * msPerDay"

definition targetDate :: "zone \<Rightarrow> int \<Rightarrow> int \<Rightarrow> int" where
  "targetDate tz now weekdayIndex =
     nextWeekMonday tz now + ((weekdayIndex - 1 + 7) mod 7) * msPerDay"



definition newYork :: zone where
  "newYork = zoneWithChange (- 5 * msPerHour) (- 4 * msPerHour) 1741503600000"

text \<open>The UTC time value that a serialized timestamp denotes.\<close>

fun isoTime :: "isoString \<Rightarrow> int" where
  "isoTime (IsoUTC t) = t"

text \<open>
  Reading a serialized timestamp as UTC and showing it in a zone whose offset from UTC
  is \<open>offset\<close> milliseconds: the hour and the minute on that zone's wall clock.
  America/Bogota is five hours behind UTC all year.
\<close>

definition redisplay :: "int \<Rightarrow> isoString \<Rightarrow> int \<times> int" where
  "redisplay offset s = (HourFromTime (isoTime s + offset), MinFromTime (isoTime s + offset))"

definition bogotaOffset :: int where
  "bogotaOffset = - 5 * msPerHour"

text \<open>
  The outcome of each transform and of each write, in turn, each started in the world
  the previous one left: what the two loops of the job do, without their accumulators.
\<close>

fun transformOutcomes :: "host \<Rightarrow> templateTask list \<Rightarrow> world \<Rightarrow> (templateTask \<times> (jsexn + event)) list" where
  "transformOutcomes h [] w = []"
| "transformOutcomes h (task # tasks) w =
     (case transformTaskToEvent h task w of (r, w') \<Rightarrow> (task, r) # transformOutcomes h tasks w')"

fun writeOutcomes :: "config \<Rightarrow> host \<Rightarrow> event list \<Rightarrow> world \<Rightarrow> (event \<times> (jsexn + string)) list" where
  "writeOutcomes cfg h [] w = []"
| "writeOutcomes cfg h (ev # evs) w =
     (case createCalendarEvent cfg h ev w of (r, w') \<Rightarrow> (ev, r) # writeOutcomes cfg h evs w')"

text \<open>The values of the outcomes that succeeded, and the failed ones with their errors.\<close>

definition succeeded :: "('a \<times> (jsexn + 'b)) list \<Rightarrow> 'b list" where
  "succeeded outs = concat (map (\<lambda>(x, r). case r of Inr v \<Rightarrow> [v] | Inl _ \<Rightarrow> []) outs)"

definition failures :: "('a \<times> (jsexn + 'b)) list \<Rightarrow> ('a \<times> jsexn) list" where
  "failures outs = concat (map (\<lambda>(x, r). case r of Inl e \<Rightarrow> [(x, e)] | Inr _ \<Rightarrow> []) outs)"

text \<open>The effects that are calls to create a page.\<close>

definition isPagesCreate :: "effect \<Rightarrow> bool" where
  "isPagesCreate x = (case x of PagesCreate _ \<Rightarrow> True | _ \<Rightarrow> False)"

subsection \<open>Example data\<close>

text \<open>
  A template page as the API returns it, and five pages: the stand-up of the
  specification's scenario, a row with an unrecognised day, a row without a duration,
  a row with a negative duration, and a row whose Time column is empty (the API returns
  an empty text array for it).
\<close>

definition templatePage :: "string \<Rightarrow> string \<Rightarrow> string \<Rightarrow> string \<Rightarrow> int option \<Rightarrow> page" where
  "templatePage ident nm dy tm dur =
     \<lparr>page_id = ident,
      prop_Name = Some \<lparr>title = Some [nm], select = None, rich_text = None, number = None\<rparr>,
      prop_Day = Some \<lparr>title = None, select = Some dy, rich_text = None, number = None\<rparr>,
      prop_Time = Some \<lparr>title = None, select = None, rich_text = Some [tm], number = None\<rparr>,
      prop_Duration = Some \<lparr>title = None, select = None, rich_text = None, number = dur\<rparr>,
      prop_Notes = None\<rparr>"

definition standupPage :: page where
  "standupPage = templatePage ''page-1'' ''Standup'' ''Monday'' ''09:00'' (Some 30)"

definition fundayPage :: page where
  "fundayPage = templatePage ''page-2'' ''Party'' ''Funday'' ''10:00'' (Some 45)"

definition gymPage :: page where
  "gymPage = templatePage ''page-3'' ''Gym'' ''Tuesday'' ''18:00'' None"

definition napPage :: page where
  "napPage = templatePage ''page-4'' ''Nap'' ''Monday'' ''14:00'' (Some (- 30))"


text \<open>
  The settings of a run, and a host in UTC whose clock reads the epoch, whose template
  database holds the given pages and whose API accepts every call.
\<close>

definition exampleConfig :: config where
  "exampleConfig =
     \<lparr>apiKey = ''secret'', templateDbId = ''template-db'', calendarDbId = ''calendar-db'',
      loggingLevel = ''info'', timezone = ''UTC''\<rparr>"

definition exampleHost :: "page list \<Rightarrow> host" where
  "exampleHost pages =
     \<lparr>hostZone = fixedZone 0,
      numberOther = (\<lambda>_. NaN),
      clock = (\<lambda>_. 0),
      databasesRetrieve = (\<lambda>_ _. None),
      databasesQuery = (\<lambda>_ _. Inr pages),
      pagesCreate = (\<lambda>_ _. Inr ''new-page'')\<rparr>"

text \<open>A host on which the API token is refused: every retrieval of a database fails.\<close>

definition offlineHost :: host where
  "offlineHost =
     (exampleHost [standupPage])
       \<lparr>databasesRetrieve := (\<lambda>_ _. Some (APIResponseError ''unauthorized'' ''API token is invalid.''))\<rparr>"

text \<open>A host on which the first two calls to create a page fail and every later one succeeds.\<close>

definition flakyHost :: host where
  "flakyHost =
     (exampleHost [standupPage])
       \<lparr>pagesCreate :=
          (\<lambda>w rq. if length (filter isPagesCreate w) < 2
                   then Inl (APIResponseError ''rate_limited'' ''Too many requests'')
                   else Inr ''new-page'')\<rparr>"

text \<open>A host on which every creation of the page named Standup is refused.\<close>

definition rejectingHost :: host where
  "rejectingHost =
     (exampleHost [standupPage, gymPage])
       \<lparr>pagesCreate :=
          (\<lambda>w rq. if Name_title_content rq = ''Standup''
                   then Inl (APIResponseError ''validation_error'' ''Name is invalid'')
                   else Inr ''new-page'')\<rparr>"

text \<open>
  The stand-up as a parsed task, the event derived from it when the clock reads the
  epoch in UTC, and the event derived from the page with the negative duration.
\<close>

definition standup :: templateTask where
  "standup =
     \<lparr>task_id = ''page-1'', task_name = ''Standup'', task_day = ''Monday'',
      task_time = ''09:00'', task_duration = 30, task_notes = []\<rparr>"

definition standupEvent :: event where
  "standupEvent =
     \<lparr>event_name = ''Standup'',
      event_date = \<lparr>start = IsoUTC 374400000, end' = IsoUTC 376200000,
                    time_zone = ''America/Bogota''\<rparr>,
      event_notes = ''Generado autom'' @ a_acute @ ''ticamente desde plantilla''\<rparr>"

definition napEvent :: event where
  "napEvent =
     \<lparr>event_name = ''Nap'',
      event_date = \<lparr>start = IsoUTC 392400000, end' = IsoUTC 390600000,
                    time_zone = ''America/Bogota''\<rparr>,
      event_notes = ''Generado autom'' @ a_acute @ ''ticamente desde plantilla''\<rparr>"

section \<open>Calendar arithmetic\<close>






















section \<open>The date of a weekday in the coming week\<close>




text \<open>
  On a host in America/New_York, with the clock at noon UTC on the fifth of March 2025,
  the Monday of next week is past the clock change of the ninth: the date returned is
  its midnight in the new offset, 04:00 UTC on the tenth.
\<close>

lemma getNextWeekDayDate_newYork:
  "getNextWeekDayDate newYork 1741176000000 ''Monday'' = Inr (Date 1741579200000)"
  by code_simp

section \<open>Parsing the time of day\<close>













section \<open>Start, end and the serialized date range\<close>

lemma TimeClip_cases: "TimeClip t = InvalidDate \<or> TimeClip t = Date t"
  by (simp add: TimeClip_def)

lemma createNotionDateObject_Inr:
  assumes "createNotionDateObject startDate endDate tz = Inr nd"
  shows "\<exists>s e. startDate = Date s \<and> endDate = Date e \<and>
           nd = \<lparr>start = IsoUTC (s - msPerHour), end' = IsoUTC (e - msPerHour), time_zone = tz\<rparr>"
  using assms
  by (cases startDate; cases endDate)
     (auto simp: createNotionDateObject_def newDate_getTime_plus_def formatForNotion_def
        offsetHours_def TimeClip_def Let_def split: if_splits)

lemma calculateEndDate_Date:
  "calculateEndDate startDate D = Date e \<Longrightarrow> \<exists>s. startDate = Date s \<and> e = s + D * msPerMinute"
  by (cases startDate)
     (auto simp: calculateEndDate_def addMinutes_def TimeClip_def split: if_splits)

lemma transformTaskToEvent_Inr:
  assumes "transformTaskToEvent h task w = (Inr ev, w')"
  shows "\<exists>s. event_date ev =
             \<lparr>start = IsoUTC s, end' = IsoUTC (s + task_duration task * msPerMinute),
              time_zone = ''America/Bogota''\<rparr> \<and>
           event_name ev = task_name task \<and> w' = w @ [NewDate]"
proof -
  from assms obtain dayDate nd where
    nd: "createNotionDateObject
           (parseTimeToDate (numberOther h) (hostZone h) dayDate (task_time task))
           (calculateEndDate
              (parseTimeToDate (numberOther h) (hostZone h) dayDate (task_time task))
              (task_duration task))
           ''America/Bogota'' = Inr nd"
    and ev: "event_date ev = nd" "event_name ev = task_name task" "w' = w @ [NewDate]"
    by (auto simp: transformTaskToEvent_def Let_def split: sum.splits)
  from createNotionDateObject_Inr [OF nd] obtain s e where
    se: "parseTimeToDate (numberOther h) (hostZone h) dayDate (task_time task) = Date s"
      "calculateEndDate
         (parseTimeToDate (numberOther h) (hostZone h) dayDate (task_time task))
         (task_duration task) = Date e"
      "nd = \<lparr>start = IsoUTC (s - msPerHour), end' = IsoUTC (e - msPerHour),
             time_zone = ''America/Bogota''\<rparr>"
    by blast
  from calculateEndDate_Date [OF se(2)] se(1) have "e = s + task_duration task * msPerMinute"
    by simp
  with se(3) ev show ?thesis by simp
qed

lemma createNotionDateObject_end_Invalid:
  "createNotionDateObject startDate InvalidDate label = Inl (RangeError ''Invalid time value'')"
  by (cases startDate)
     (simp_all add: createNotionDateObject_def newDate_getTime_plus_def formatForNotion_def
        TimeClip_def Let_def)

text \<open>
  Claim C7, as amended. For a positive duration \<open>D\<close> and a valid start whose end,
  \<open>D\<close> minutes later, is still within the range of \<^verbatim>\<open>Date\<close>, \<^verbatim>\<open>calculateEndDate\<close>
  returns the instant exactly \<open>D * 60 * 1000\<close> milliseconds after the start, which is
  strictly later; and every event the transform derives from a task of duration \<open>D\<close>
  has its serialized end exactly that much after its serialized start. For a start and
  a duration whose end lies beyond that range, the end is an Invalid Date, and the
  transform of a task with that start and that duration fails when the date range is
  serialized: no event is derived.
\<close>

theorem calculateEndDate_exact:
  assumes "0 < D"
  shows "(\<bar>t\<bar> \<le> maxTimeValue \<and> t + D * 60 * 1000 \<le> maxTimeValue \<longrightarrow>
            calculateEndDate (Date t) D = Date (t + D * 60 * 1000) \<and> t < t + D * 60 * 1000) \<and>
         (transformTaskToEvent h task w = (Inr ev, w') \<and> task_duration task = D \<longrightarrow>
            isoTime (end' (event_date ev)) - isoTime (start (event_date ev)) = D * 60 * 1000 \<and>
            isoTime (start (event_date ev)) < isoTime (end' (event_date ev))) \<and>
         (maxTimeValue < \<bar>t2 + D2 * 60 * 1000\<bar> \<longrightarrow>
            calculateEndDate (Date t2) D2 = InvalidDate \<and>
            (getNextWeekDayDate (hostZone h2) (clock h2 w2) (task_day task2) = Inr dayDate \<and>
             parseTimeToDate (numberOther h2) (hostZone h2) dayDate (task_time task2) = Date t2 \<and>
             task_duration task2 = D2 \<longrightarrow>
               transformTaskToEvent h2 task2 w2
                 = (Inl (RangeError ''Invalid time value''), w2 @ [NewDate])))"
proof -
  have a: "\<bar>t\<bar> \<le> maxTimeValue \<and> t + D * 60 * 1000 \<le> maxTimeValue \<longrightarrow>
            calculateEndDate (Date t) D = Date (t + D * 60 * 1000) \<and> t < t + D * 60 * 1000"
    using assms by (auto simp: calculateEndDate_def addMinutes_def TimeClip_def)
  have c: "transformTaskToEvent h task w = (Inr ev, w') \<and> task_duration task = D \<longrightarrow>
            isoTime (end' (event_date ev)) - isoTime (start (event_date ev)) = D * 60 * 1000 \<and>
            isoTime (start (event_date ev)) < isoTime (end' (event_date ev))"
    using assms by (auto dest!: transformTaskToEvent_Inr)
  have b: "maxTimeValue < \<bar>t2 + D2 * 60 * 1000\<bar> \<longrightarrow>
            calculateEndDate (Date t2) D2 = InvalidDate \<and>
            (getNextWeekDayDate (hostZone h2) (clock h2 w2) (task_day task2) = Inr dayDate \<and>
             parseTimeToDate (numberOther h2) (hostZone h2) dayDate (task_time task2) = Date t2 \<and>
             task_duration task2 = D2 \<longrightarrow>
               transformTaskToEvent h2 task2 w2
                 = (Inl (RangeError ''Invalid time value''), w2 @ [NewDate]))"
  proof
    assume out: "maxTimeValue < \<bar>t2 + D2 * 60 * 1000\<bar>"
    then have inv: "calculateEndDate (Date t2) D2 = InvalidDate"
      by (simp add: calculateEndDate_def addMinutes_def TimeClip_def)
    then show "calculateEndDate (Date t2) D2 = InvalidDate \<and>
            (getNextWeekDayDate (hostZone h2) (clock h2 w2) (task_day task2) = Inr dayDate \<and>
             parseTimeToDate (numberOther h2) (hostZone h2) dayDate (task_time task2) = Date t2 \<and>
             task_duration task2 = D2 \<longrightarrow>
               transformTaskToEvent h2 task2 w2
                 = (Inl (RangeError ''Invalid time value''), w2 @ [NewDate]))"
      by (simp add: transformTaskToEvent_def Let_def createNotionDateObject_end_Invalid)
  qed
  from a c b show ?thesis by blast
qed

lemma transform_standup:
  "transformTaskToEvent (exampleHost []) standup [] = (Inr standupEvent, [NewDate])"
  by code_simp

theorem calculateEndDate_exact_witness:
  "(0::int) < 30 \<and>
   (\<bar>0::int\<bar> \<le> maxTimeValue \<and> 0 + 30 * 60 * 1000 \<le> maxTimeValue) \<and>
   calculateEndDate (Date 0) 30 = Date (0 + 30 * 60 * 1000) \<and>
   (transformTaskToEvent (exampleHost []) standup [] = (Inr standupEvent, [NewDate]) \<and>
    task_duration standup = 30) \<and>
   isoTime (end' (event_date standupEvent)) - isoTime (start (event_date standupEvent))
     = 30 * 60 * 1000 \<and>
   isoTime (start (event_date standupEvent)) < isoTime (end' (event_date standupEvent)) \<and>
   maxTimeValue < \<bar>378000000 + 1000000000000 * 60 * 1000 :: int\<bar> \<and>
   (getNextWeekDayDate (hostZone (exampleHost [])) (clock (exampleHost []) [])
      (task_day (standup\<lparr>task_duration := 1000000000000\<rparr>)) = Inr (Date 345600000) \<and>
    parseTimeToDate (numberOther (exampleHost [])) (hostZone (exampleHost [])) (Date 345600000)
      (task_time (standup\<lparr>task_duration := 1000000000000\<rparr>)) = Date 378000000 \<and>
    task_duration (standup\<lparr>task_duration := 1000000000000\<rparr>) = 1000000000000) \<and>
   calculateEndDate (Date 378000000) 1000000000000 = InvalidDate \<and>
   transformTaskToEvent (exampleHost []) (standup\<lparr>task_duration := 1000000000000\<rparr>) []
     = (Inl (RangeError ''Invalid time value''), [] @ [NewDate])"
proof -
  have d: "task_duration standup = 30" by (simp add: standup_def)
  have p: "(0::int) < 30" by simp
  have o: "maxTimeValue < \<bar>378000000 + 1000000000000 * 60 * 1000 :: int\<bar>" by simp
  have g: "getNextWeekDayDate (hostZone (exampleHost [])) (clock (exampleHost []) [])
      (task_day (standup\<lparr>task_duration := 1000000000000\<rparr>)) = Inr (Date 345600000)"
    by code_simp
  have s: "parseTimeToDate (numberOther (exampleHost [])) (hostZone (exampleHost []))
      (Date 345600000) (task_time (standup\<lparr>task_duration := 1000000000000\<rparr>)) = Date 378000000"
    by code_simp
  have d2: "task_duration (standup\<lparr>task_duration := 1000000000000\<rparr>) = 1000000000000"
    by simp
  show ?thesis
    using calculateEndDate_exact
            [OF p, where t = 0 and h = "exampleHost []" and task = standup and w = "[]"
               and ev = standupEvent and w' = "[NewDate]"
               and ?t2.0 = 378000000 and ?D2.0 = 1000000000000 and ?h2.0 = "exampleHost []"
               and ?w2.0 = "[]" and ?task2.0 = "standup\<lparr>task_duration := 1000000000000\<rparr>"
               and dayDate = "Date 345600000"]
      transform_standup d o g s d2
    by simp
qed

text \<open>
  The claim as stated fails: a duration of \<open>10^12\<close> minutes from the epoch ends beyond
  the largest time value a \<^verbatim>\<open>Date\<close> holds, and the end is an Invalid Date.
\<close>

theorem calculateEndDate_beyond_range:
  "calculateEndDate (Date 0) 1000000000000 = InvalidDate"
  by (simp add: calculateEndDate_def addMinutes_def TimeClip_def)

text \<open>
  Claim C2 asks that the serialized start, read as UTC and shown in the zone of the
  label, shows the hour and minute that were given to \<^verbatim>\<open>parseTimeToDate\<close>. The code
  does not do that. The source's comment says the compensation is the five hours of
  Colombia; the constant is one hour. On a host in UTC, 09:00 on Monday the fifth of
  January 1970 for thirty minutes is serialized as 08:00 to 08:30 UTC, which America/Bogota
  shows as 03:00 to 03:30. On a host in America/Bogota itself the same input is serialized
  as 13:00 UTC, shown as 08:00.
\<close>

theorem createNotionDateObject_round_trip_broken:
  "createNotionDateObject
     (parseTimeToDate (\<lambda>_. NaN) (fixedZone 0) (Date 345600000) ''09:00'')
     (calculateEndDate (parseTimeToDate (\<lambda>_. NaN) (fixedZone 0) (Date 345600000) ''09:00'') 30)
     ''America/Bogota''
     = Inr \<lparr>start = IsoUTC 374400000, end' = IsoUTC 376200000, time_zone = ''America/Bogota''\<rparr> \<and>
   redisplay bogotaOffset (IsoUTC 374400000) = (3, 0) \<and>
   redisplay bogotaOffset (IsoUTC 376200000) = (3, 30) \<and>
   createNotionDateObject
     (parseTimeToDate (\<lambda>_. NaN) (fixedZone bogotaOffset) (Date 363600000) ''09:00'')
     (calculateEndDate (parseTimeToDate (\<lambda>_. NaN) (fixedZone bogotaOffset) (Date 363600000) ''09:00'') 30)
     ''America/Bogota''
     = Inr \<lparr>start = IsoUTC 392400000, end' = IsoUTC 394200000, time_zone = ''America/Bogota''\<rparr> \<and>
   redisplay bogotaOffset (IsoUTC 392400000) = (8, 0)"
  by code_simp

section \<open>Retries, the two loops and the trace of a run\<close>

lemma retryOperation_3:
  "retryOperation fn 3 delay w =
     (case fn w of
        (Inr r, w1) \<Rightarrow> (Inr r, w1)
      | (Inl e1, w1) \<Rightarrow>
          (case fn (w1 @ [SetTimeout (delay * 1)]) of
             (Inr r, w2) \<Rightarrow> (Inr r, w2)
           | (Inl e2, w2) \<Rightarrow>
               (case fn (w2 @ [SetTimeout (delay * 2)]) of
                  (Inr r, w3) \<Rightarrow> (Inr r, w3)
                | (Inl e3, w3) \<Rightarrow> (Inl (Some e3), w3))))"
  unfolding retryOperation_def
  by (simp add: retryLoop.simps [of _ _ _ 0] retryLoop.simps [of _ _ _ 1]
        retryLoop.simps [of _ _ _ 2] retryLoop.simps [of _ _ _ 3]
      split: prod.splits sum.splits)

lemma createCalendarEvent_trace:
  assumes "createCalendarEvent cfg h ev w = (r, w')"
  shows "\<exists>sfx. w' = w @ sfx \<and> PagesCreate (createRequestOf cfg ev) \<in> set sfx \<and>
           (\<forall>x \<in> set sfx. x = PagesCreate (createRequestOf cfg ev) \<or> (\<exists>d. x = SetTimeout d))"
  using assms unfolding createCalendarEvent_def retryOperation_3
  by (auto split: prod.splits sum.splits)

lemma createCalendarEvent_attempts:
  "1 \<le> length (filter isPagesCreate (drop (length w) (snd (createCalendarEvent cfg h ev w)))) \<and>
   length (filter isPagesCreate (drop (length w) (snd (createCalendarEvent cfg h ev w)))) \<le> 3"
  unfolding createCalendarEvent_def retryOperation_3
  by (auto simp: isPagesCreate_def split: prod.splits sum.splits)

lemma batch_loop_outcomes:
  "createCalendarEventsBatch_loop cfg h evs rs es w = (res, w') \<Longrightarrow>
     batch_success res = rs @ succeeded (writeOutcomes cfg h evs w) \<and>
     batch_errors res = es @ failures (writeOutcomes cfg h evs w)"
proof (induction evs arbitrary: rs es w)
  case Nil
  then show ?case by (auto simp: succeeded_def failures_def)
next
  case (Cons ev evs)
  then show ?case
    by (auto simp: succeeded_def failures_def split: prod.splits sum.splits)
qed

lemma writeOutcomes_events: "map fst (writeOutcomes cfg h evs w) = evs"
  by (induction evs arbitrary: w) (auto split: prod.splits)

lemma transformOutcomes_tasks: "map fst (transformOutcomes h tasks w) = tasks"
  by (induction tasks arbitrary: w) (auto split: prod.splits)

lemma length_succeeded_failures: "length (succeeded outs) + length (failures outs) = length outs"
  by (induction outs) (auto simp: succeeded_def failures_def split: sum.splits)

lemma transformLoop_outcomes:
  "transformLoop h tasks evs errs w =
     ((evs @ succeeded (transformOutcomes h tasks w), errs @ failures (transformOutcomes h tasks w)),
      w @ replicate (length tasks) NewDate)"
proof (induction tasks arbitrary: evs errs w)
  case Nil
  then show ?case by (simp add: succeeded_def failures_def)
next
  case (Cons task tasks)
  have w': "snd (transformTaskToEvent h task w) = w @ [NewDate]"
    by (simp add: transformTaskToEvent_def Let_def split: sum.splits)
  show ?case
    using w' by (auto simp: Cons.IH succeeded_def failures_def replicate_app_Cons_same
                      split: prod.splits sum.splits)
qed

lemma batch_loop_trace:
  "createCalendarEventsBatch_loop cfg h evs rs es w = (res, w') \<Longrightarrow>
     \<exists>sfx. w' = w @ sfx \<and>
       {rq. PagesCreate rq \<in> set sfx} = createRequestOf cfg ` set evs \<and>
       (\<forall>x \<in> set sfx. (\<exists>rq. x = PagesCreate rq) \<or> (\<exists>d. x = SetTimeout d))"
proof (induction evs arbitrary: rs es w)
  case Nil
  then show ?case by simp
next
  case (Cons ev evs)
  obtain r w1 where c: "createCalendarEvent cfg h ev w = (r, w1)"
    by (cases "createCalendarEvent cfg h ev w")
  from createCalendarEvent_trace [OF c] obtain s1 where
    s1: "w1 = w @ s1" "PagesCreate (createRequestOf cfg ev) \<in> set s1"
      "\<forall>x \<in> set s1. x = PagesCreate (createRequestOf cfg ev) \<or> (\<exists>d. x = SetTimeout d)"
    by blast
  from Cons.prems c obtain rs' es' where
    rest: "createCalendarEventsBatch_loop cfg h evs rs' es' w1 = (res, w')"
    by (cases r) auto
  from Cons.IH [OF rest] obtain s2 where
    s2: "w' = w1 @ s2" "{rq. PagesCreate rq \<in> set s2} = createRequestOf cfg ` set evs"
      "\<forall>x \<in> set s2. (\<exists>rq. x = PagesCreate rq) \<or> (\<exists>d. x = SetTimeout d)"
    by blast
  have "{rq. PagesCreate rq \<in> set s1} = {createRequestOf cfg ev}"
    using s1(2,3) by auto
  then have "{rq. PagesCreate rq \<in> set (s1 @ s2)} = createRequestOf cfg ` set (ev # evs)"
    using s2(2) by auto
  moreover have "\<forall>x \<in> set (s1 @ s2). (\<exists>rq. x = PagesCreate rq) \<or> (\<exists>d. x = SetTimeout d)"
    using s1(3) s2(3) by auto
  moreover have "w' = w @ (s1 @ s2)" using s1(1) s2(1) by simp
  ultimately show ?case by blast
qed

lemma verifyConnection_trace:
  "verifyConnection cfg h w = (r, w') \<Longrightarrow>
     \<exists>sfx. w' = w @ sfx \<and> (\<forall>x \<in> set sfx. \<exists>d. x = DatabasesRetrieve d)"
  by (auto simp: verifyConnection_def Let_def split: option.splits)

lemma getTemplateTasks_trace:
  "getTemplateTasks cfg h w = (r, w') \<Longrightarrow>
     \<exists>sfx. w' = w @ sfx \<and> (\<forall>x \<in> set sfx. (\<exists>d. x = DatabasesQuery d) \<or> (\<exists>d. x = SetTimeout d))"
  unfolding getTemplateTasks_def retryOperation_3
  by (auto split: prod.splits sum.splits)

lemma generateWeek_run:
  assumes v: "verifyConnection cfg h w = (Inr b, w1)"
      and f: "getTemplateTasks cfg h w1 = (Inr tasks, w2)"
  shows "generateWeek cfg h w =
     (if tasks = []
      then (Inr \<lparr>success = True, created = 0, failed = 0,
                 message = Some ''No hay tareas de plantilla para procesar'',
                 errors = None, error = None\<rparr>, w2)
      else (let events = succeeded (transformOutcomes h tasks w2);
                w3 = w2 @ replicate (length tasks) NewDate;
                writes = writeOutcomes cfg h events w3
            in (Inr \<lparr>success = True,
                      created = length (succeeded writes),
                      failed = length (failures writes),
                      message = None,
                      errors = Some (map (\<lambda>e. (event_name (fst e), messageOf (snd e))) (failures writes)),
                      error = None\<rparr>,
                snd (createCalendarEventsBatch cfg h events w3))))"
proof (cases "tasks = []")
  case True
  then show ?thesis
    by (simp add: generateWeek_def generateWeek_try_def v f)
next
  case False
  define events where "events = succeeded (transformOutcomes h tasks w2)"
  define w3 where "w3 = w2 @ replicate (length tasks) NewDate"
  obtain res w4 where b: "createCalendarEventsBatch cfg h events w3 = (res, w4)"
    by (cases "createCalendarEventsBatch cfg h events w3")
  from batch_loop_outcomes [OF b [unfolded createCalendarEventsBatch_def]]
  have o: "batch_success res = succeeded (writeOutcomes cfg h events w3)"
    "batch_errors res = failures (writeOutcomes cfg h events w3)"
    by simp_all
  show ?thesis
    using False
    by (simp add: generateWeek_def generateWeek_try_def v f transformLoop_outcomes
          events_def [symmetric] w3_def [symmetric] b o Let_def)
qed

lemma transformTaskToEvent_world: "snd (transformTaskToEvent h task w) = w @ [NewDate]"
  by (simp add: transformTaskToEvent_def Let_def split: sum.splits)

lemma transformOutcomes_eq:
  "transformOutcomes h tasks w =
     map (\<lambda>i. (tasks ! i, fst (transformTaskToEvent h (tasks ! i) (w @ replicate i NewDate))))
       [0..<length tasks]"
proof (induction tasks arbitrary: w)
  case Nil
  then show ?case by simp
next
  case (Cons task tasks)
  obtain r w' where t: "transformTaskToEvent h task w = (r, w')"
    by (cases "transformTaskToEvent h task w")
  with transformTaskToEvent_world [of h task w] have w': "w' = w @ [NewDate]" by simp
  show ?case
    unfolding transformOutcomes.simps t prod.case Cons.IH w' length_Cons map_upt_Suc
    using t by simp
qed

lemma set_succeeded:
  "set (succeeded outs) = {v. \<exists>x. (x, Inr v) \<in> set outs}"
  by (induction outs) (auto simp: succeeded_def split: sum.splits)

lemma set_succeeded_transformOutcomes:
  "set (succeeded (transformOutcomes h tasks w)) =
     {ev. \<exists>i < length tasks.
            fst (transformTaskToEvent h (tasks ! i) (w @ replicate i NewDate)) = Inr ev}"
proof -
  have "\<And>ev. (\<exists>x. (x, Inr ev) \<in> set (transformOutcomes h tasks w)) \<longleftrightarrow>
          (\<exists>i < length tasks.
             fst (transformTaskToEvent h (tasks ! i) (w @ replicate i NewDate)) = Inr ev)"
    unfolding transformOutcomes_eq by (auto simp: image_iff) force
  then show ?thesis unfolding set_succeeded by simp
qed

lemma generateWeek_requests:
  "{rq. PagesCreate rq \<in> set (drop (length w) (snd (generateWeek cfg h w)))} =
     (case verifyConnection cfg h w of
        (Inl _, _) \<Rightarrow> {}
      | (Inr _, w1) \<Rightarrow>
          (case getTemplateTasks cfg h w1 of
             (Inl _, _) \<Rightarrow> {}
           | (Inr tasks, w2) \<Rightarrow>
               createRequestOf cfg ` set (succeeded (transformOutcomes h tasks w2))))"
proof -
  obtain rv w1 where v: "verifyConnection cfg h w = (rv, w1)"
    by (cases "verifyConnection cfg h w")
  from verifyConnection_trace [OF v] obtain s1 where
    s1: "w1 = w @ s1" "\<forall>x \<in> set s1. \<exists>d. x = DatabasesRetrieve d" by blast
  show ?thesis
  proof (cases rv)
    case (Inl e)
    then show ?thesis
      using v s1 by (auto simp: generateWeek_def generateWeek_try_def handleError_def)
  next
    case (Inr b)
    note rv = this
    obtain rt w2 where f: "getTemplateTasks cfg h w1 = (rt, w2)"
      by (cases "getTemplateTasks cfg h w1")
    from getTemplateTasks_trace [OF f] obtain s2 where
      s2: "w2 = w1 @ s2"
        "\<forall>x \<in> set s2. (\<exists>d. x = DatabasesQuery d) \<or> (\<exists>d. x = SetTimeout d)" by blast
    show ?thesis
    proof (cases rt)
      case (Inl e)
      then show ?thesis
        using v rv f s1 s2 by (auto simp: generateWeek_def generateWeek_try_def handleError_def)
    next
      case (Inr tasks)
      note rt = this
      define events where "events = succeeded (transformOutcomes h tasks w2)"
      define w3 where "w3 = w2 @ replicate (length tasks) NewDate"
      obtain res w4 where b: "createCalendarEventsBatch cfg h events w3 = (res, w4)"
        by (cases "createCalendarEventsBatch cfg h events w3")
      from batch_loop_trace [OF b [unfolded createCalendarEventsBatch_def]] obtain s4 where
        s4: "w4 = w3 @ s4" "{rq. PagesCreate rq \<in> set s4} = createRequestOf cfg ` set events"
        by blast
      show ?thesis
      proof (cases "tasks = []")
        case True
        then show ?thesis
          using generateWeek_run [OF v [unfolded rv] f [unfolded rt]] v rv f rt s1 s2
          by (auto simp: succeeded_def)
      next
        case False
        have "snd (generateWeek cfg h w) = w4"
          using generateWeek_run [OF v [unfolded rv] f [unfolded rt]] False b
          by (simp add: Let_def events_def w3_def)
        moreover have "drop (length w) w4 = s1 @ s2 @ replicate (length tasks) NewDate @ s4"
          using s1 s2 s4 by (simp add: w3_def)
        moreover have "{rq. PagesCreate rq \<in> set (s1 @ s2 @ replicate (length tasks) NewDate @ s4)}
                         = {rq. PagesCreate rq \<in> set s4}"
          using s1(2) s2(2) by auto
        ultimately show ?thesis
          using s4(2) v rv f rt by (simp add: events_def)
      qed
    qed
  qed
qed






text \<open>The configured time zone is read by none of the operations.\<close>

lemma createCalendarEvent_timezone:
  "createCalendarEvent (cfg\<lparr>timezone := z\<rparr>) h ev w = createCalendarEvent cfg h ev w"
  by (simp add: createCalendarEvent_def createRequestOf_def)

lemma batch_loop_timezone:
  "createCalendarEventsBatch_loop (cfg\<lparr>timezone := z\<rparr>) h evs rs es w
     = createCalendarEventsBatch_loop cfg h evs rs es w"
  by (induction evs arbitrary: rs es w)
     (simp_all add: createCalendarEvent_timezone split: prod.splits sum.splits)

lemma verifyConnection_timezone:
  "verifyConnection (cfg\<lparr>timezone := z\<rparr>) h w = verifyConnection cfg h w"
  by (simp add: verifyConnection_def Let_def cong: option.case_cong)

lemma getTemplateTasks_timezone:
  "getTemplateTasks (cfg\<lparr>timezone := z\<rparr>) h w = getTemplateTasks cfg h w"
  by (simp add: getTemplateTasks_def)

lemma generateWeek_try_timezone:
  "generateWeek_try (cfg\<lparr>timezone := z\<rparr>) h w = generateWeek_try cfg h w"
  unfolding generateWeek_try_def verifyConnection_timezone getTemplateTasks_timezone
    createCalendarEventsBatch_def batch_loop_timezone ..

section \<open>Claims about retries and the batch\<close>

text \<open>
  Claim C6. \<^verbatim>\<open>retryOperation\<close> with \<open>maxRetries = 3\<close> is exactly this: run the
  operation; if it succeeds return its result, with no further attempt; otherwise wait
  \<open>delay * 1\<close> and run it again; if that fails wait \<open>delay * 2\<close> and run it a third
  time; if that fails too, throw the error of the third failure. There is no fourth
  attempt and no wait after the last one. Hence a page creation that fails twice and
  succeeds on the third attempt, with the default delay of 1000 ms, is counted by the
  batch among the created events and not among the errors; and creating one event calls
  the API at least once and at most three times.
\<close>

theorem retryOperation_three_attempts:
  "retryOperation fn 3 delay w =
     (case fn w of
        (Inr r, w1) \<Rightarrow> (Inr r, w1)
      | (Inl e1, w1) \<Rightarrow>
          (case fn (w1 @ [SetTimeout (delay * 1)]) of
             (Inr r, w2) \<Rightarrow> (Inr r, w2)
           | (Inl e2, w2) \<Rightarrow>
               (case fn (w2 @ [SetTimeout (delay * 2)]) of
                  (Inr r, w3) \<Rightarrow> (Inr r, w3)
                | (Inl e3, w3) \<Rightarrow> (Inl (Some e3), w3)))) \<and>
   (rq = createRequestOf cfg ev \<and>
    pagesCreate h w rq = Inl e1 \<and>
    pagesCreate h (w @ [PagesCreate rq, SetTimeout 1000]) rq = Inl e2 \<and>
    pagesCreate h (w @ [PagesCreate rq, SetTimeout 1000, PagesCreate rq, SetTimeout 2000]) rq
      = Inr response \<longrightarrow>
    createCalendarEventsBatch cfg h [ev] w =
      (\<lparr>batch_success = [response], batch_errors = []\<rparr>,
       w @ [PagesCreate rq, SetTimeout 1000, PagesCreate rq, SetTimeout 2000, PagesCreate rq])) \<and>
   1 \<le> length (filter isPagesCreate (drop (length w) (snd (createCalendarEvent cfg h ev w)))) \<and>
   length (filter isPagesCreate (drop (length w) (snd (createCalendarEvent cfg h ev w)))) \<le> 3"
proof -
  have b: "rq = createRequestOf cfg ev \<and>
    pagesCreate h w rq = Inl e1 \<and>
    pagesCreate h (w @ [PagesCreate rq, SetTimeout 1000]) rq = Inl e2 \<and>
    pagesCreate h (w @ [PagesCreate rq, SetTimeout 1000, PagesCreate rq, SetTimeout 2000]) rq
      = Inr response \<longrightarrow>
    createCalendarEventsBatch cfg h [ev] w =
      (\<lparr>batch_success = [response], batch_errors = []\<rparr>,
       w @ [PagesCreate rq, SetTimeout 1000, PagesCreate rq, SetTimeout 2000, PagesCreate rq])"
  proof (intro impI, elim conjE)
    assume rq: "rq = createRequestOf cfg ev"
      and a1: "pagesCreate h w rq = Inl e1"
      and a2: "pagesCreate h (w @ [PagesCreate rq, SetTimeout 1000]) rq = Inl e2"
      and a3: "pagesCreate h (w @ [PagesCreate rq, SetTimeout 1000, PagesCreate rq, SetTimeout 2000]) rq
                 = Inr response"
    show "createCalendarEventsBatch cfg h [ev] w =
      (\<lparr>batch_success = [response], batch_errors = []\<rparr>,
       w @ [PagesCreate rq, SetTimeout 1000, PagesCreate rq, SetTimeout 2000, PagesCreate rq])"
      using a1 a2 a3 unfolding rq
      by (simp add: createCalendarEventsBatch_def createCalendarEvent_def retryOperation_3)
  qed
  show ?thesis
    using b createCalendarEvent_attempts [of w cfg h ev]
    by (simp only: retryOperation_3 simp_thms)
qed

theorem retryOperation_three_attempts_witness:
  "pagesCreate flakyHost [] (createRequestOf exampleConfig standupEvent)
     = Inl (APIResponseError ''rate_limited'' ''Too many requests'') \<and>
   pagesCreate flakyHost
     ([] @ [PagesCreate (createRequestOf exampleConfig standupEvent), SetTimeout 1000])
     (createRequestOf exampleConfig standupEvent)
     = Inl (APIResponseError ''rate_limited'' ''Too many requests'') \<and>
   pagesCreate flakyHost
     ([] @ [PagesCreate (createRequestOf exampleConfig standupEvent), SetTimeout 1000,
            PagesCreate (createRequestOf exampleConfig standupEvent), SetTimeout 2000])
     (createRequestOf exampleConfig standupEvent)
     = Inr ''new-page'' \<and>
   createCalendarEventsBatch exampleConfig flakyHost [standupEvent] [] =
     (\<lparr>batch_success = [''new-page''], batch_errors = []\<rparr>,
      [] @ [PagesCreate (createRequestOf exampleConfig standupEvent), SetTimeout 1000,
            PagesCreate (createRequestOf exampleConfig standupEvent), SetTimeout 2000,
            PagesCreate (createRequestOf exampleConfig standupEvent)])"
proof -
  let ?rq = "createRequestOf exampleConfig standupEvent"
  have a1: "pagesCreate flakyHost [] ?rq
              = Inl (APIResponseError ''rate_limited'' ''Too many requests'')"
    by code_simp
  have a2: "pagesCreate flakyHost ([] @ [PagesCreate ?rq, SetTimeout 1000]) ?rq
              = Inl (APIResponseError ''rate_limited'' ''Too many requests'')"
    by code_simp
  have a3: "pagesCreate flakyHost
              ([] @ [PagesCreate ?rq, SetTimeout 1000, PagesCreate ?rq, SetTimeout 2000]) ?rq
              = Inr ''new-page''"
    by code_simp
  from retryOperation_three_attempts
         [where rq = ?rq and cfg = exampleConfig and ev = standupEvent and h = flakyHost
            and w = "[]", THEN conjunct2] a1 a2 a3
  show ?thesis by blast
qed

text \<open>
  A failed connectivity check leaves \<^verbatim>\<open>generateWeek\<close> as an exception, and no result
  that \<^verbatim>\<open>generateWeek\<close> returns has \<open>success = False\<close>.
\<close>

lemma generateWeek_verify_failed:
  "verifyConnection cfg h w = (Inl e, w') \<Longrightarrow> generateWeek cfg h w = (Inl e, w')"
  by (simp add: generateWeek_def generateWeek_try_def handleError_def)

lemma generateWeek_never_returns_failure:
  "generateWeek cfg h w = (Inr r, w') \<Longrightarrow> success r"
  by (auto simp: generateWeek_def generateWeek_try_def handleError_def Let_def
           split: prod.splits sum.splits if_splits)

text \<open>
  Claim C8 says that a failed connectivity check halts the run with no fetch and no
  write, and that the run reports a top-level failure result. On a host whose API token
  is refused the run does stop after the first retrieval, with no query and no page
  creation; but \<^verbatim>\<open>generateWeek\<close> returns no result object: \<^verbatim>\<open>handleError\<close> re-throws
  inside the catch block, so the \<^verbatim>\<open>return { success: false, ... }\<close> after it is never
  reached and the error leaves \<^verbatim>\<open>generateWeek\<close> as an exception.
\<close>

theorem generateWeek_connection_failure_is_thrown:
  "generateWeek exampleConfig offlineHost [] =
     (Inl (NotionError
             (''Verificaci'' @ o_acute @ ''n de conexi'' @ o_acute @ ''n fallida: ''
              @ ''Token de API inv'' @ a_acute @ ''lido o sin permisos. Verifica tu NOTION_API_KEY'')
             (APIResponseError ''unauthorized'' ''API token is invalid.'')),
      [DatabasesRetrieve ''template-db''])"
  by code_simp

text \<open>
  Claim C3, as amended. In every run whose connectivity check and template fetch
  succeed, \<^verbatim>\<open>generateWeek\<close> returns a result with \<open>success = True\<close>. Every event whose
  transform succeeded gets its write, whatever happened to the writes before it; the
  returned error list holds, in order, the name and the message of exactly the writes
  that failed (after their retries), \<open>failed\<close> is their number, \<open>created\<close> is the number
  of writes that succeeded, and the two add up to the number of events. The errors of
  the transform are not part of the result: they are neither listed nor counted.
\<close>

theorem generateWeek_reports_write_failures:
  assumes "verifyConnection cfg h w = (Inr b, w1)"
      and "getTemplateTasks cfg h w1 = (Inr tasks, w2)"
  shows "\<exists>r w4. generateWeek cfg h w = (Inr r, w4) \<and> success r \<and>
           (let events = succeeded (transformOutcomes h tasks w2);
                writes = writeOutcomes cfg h events (w2 @ replicate (length tasks) NewDate)
            in map fst writes = events \<and>
               errors r = (if tasks = [] then None
                           else Some (map (\<lambda>(ev, e). (event_name ev, messageOf e)) (failures writes))) \<and>
               failed r = length (failures writes) \<and>
               created r = length (succeeded writes) \<and>
               created r + failed r = length events)"
proof -
  define events where "events = succeeded (transformOutcomes h tasks w2)"
  define writes where "writes = writeOutcomes cfg h events (w2 @ replicate (length tasks) NewDate)"
  have fst_writes: "map fst writes = events"
    unfolding writes_def by (rule writeOutcomes_events)
  then have "length writes = length events"
    by (metis length_map)
  with length_succeeded_failures [of writes]
  have total: "length (succeeded writes) + length (failures writes) = length events"
    by simp
  have empty: "tasks = [] \<Longrightarrow> writes = []"
    by (simp add: writes_def events_def succeeded_def)
  have "\<exists>r w4. generateWeek cfg h w = (Inr r, w4) \<and> success r \<and>
          errors r = (if tasks = [] then None
                      else Some (map (\<lambda>(ev, e). (event_name ev, messageOf e)) (failures writes))) \<and>
          failed r = length (failures writes) \<and>
          created r = length (succeeded writes)"
  proof (cases "tasks = []")
    case True
    then show ?thesis
      using generateWeek_run [OF assms] empty by (simp add: succeeded_def failures_def)
  next
    case False
    then show ?thesis
      using generateWeek_run [OF assms]
      by (simp add: Let_def case_prod_beta events_def writes_def)
  qed
  then show ?thesis
    using fst_writes total unfolding Let_def events_def [symmetric] writes_def [symmetric]
    by auto
qed

theorem generateWeek_reports_write_failures_witness:
  "verifyConnection exampleConfig rejectingHost [] =
     (Inr True, [DatabasesRetrieve ''template-db'', DatabasesRetrieve ''calendar-db'']) \<and>
   getTemplateTasks exampleConfig rejectingHost
     [DatabasesRetrieve ''template-db'', DatabasesRetrieve ''calendar-db''] =
     (Inr (map parseTemplatePage [standupPage, gymPage]),
      [DatabasesRetrieve ''template-db'', DatabasesRetrieve ''calendar-db'',
       DatabasesQuery ''template-db'']) \<and>
   fst (generateWeek exampleConfig rejectingHost []) =
     Inr \<lparr>success = True, created = 1, failed = 1, message = None,
          errors = Some [(''Standup'',
                          ''No se pudo crear el evento: Error de validaci'' @ o_acute
                          @ ''n: Name is invalid'')],
          error = None\<rparr> \<and>
   (\<exists>r w4. generateWeek exampleConfig rejectingHost [] = (Inr r, w4) \<and> success r \<and>
      (let events = succeeded (transformOutcomes rejectingHost
                       (map parseTemplatePage [standupPage, gymPage])
                       [DatabasesRetrieve ''template-db'', DatabasesRetrieve ''calendar-db'',
                        DatabasesQuery ''template-db'']);
           writes = writeOutcomes exampleConfig rejectingHost events
                      ([DatabasesRetrieve ''template-db'', DatabasesRetrieve ''calendar-db'',
                        DatabasesQuery ''template-db'']
                       @ replicate (length (map parseTemplatePage [standupPage, gymPage])) NewDate)
       in map fst writes = events \<and>
          errors r = (if map parseTemplatePage [standupPage, gymPage] = [] then None
                      else Some (map (\<lambda>(ev, e). (event_name ev, messageOf e)) (failures writes))) \<and>
          failed r = length (failures writes) \<and>
          created r = length (succeeded writes) \<and>
          created r + failed r = length events))"
proof -
  have v: "verifyConnection exampleConfig rejectingHost [] =
     (Inr True, [DatabasesRetrieve ''template-db'', DatabasesRetrieve ''calendar-db''])"
    by code_simp
  have f: "getTemplateTasks exampleConfig rejectingHost
     [DatabasesRetrieve ''template-db'', DatabasesRetrieve ''calendar-db''] =
     (Inr (map parseTemplatePage [standupPage, gymPage]),
      [DatabasesRetrieve ''template-db'', DatabasesRetrieve ''calendar-db'',
       DatabasesQuery ''template-db''])"
    by code_simp
  have r: "fst (generateWeek exampleConfig rejectingHost []) =
     Inr \<lparr>success = True, created = 1, failed = 1, message = None,
          errors = Some [(''Standup'',
                          ''No se pudo crear el evento: Error de validaci'' @ o_acute
                          @ ''n: Name is invalid'')],
          error = None\<rparr>"
    by code_simp
  show ?thesis
    using v f r generateWeek_reports_write_failures [OF v f] by blast
qed

text \<open>
  The claim as stated fails: with one template row whose day is \<^verbatim>\<open>Funday\<close>, the
  transform raises its error for that task, and the run returns \<open>failed = 0\<close> and an
  empty error list.
\<close>

theorem generateWeek_omits_transform_errors:
  "map snd (transformOutcomes (exampleHost [fundayPage]) [parseTemplatePage fundayPage]
              [DatabasesRetrieve ''template-db'', DatabasesRetrieve ''calendar-db'',
               DatabasesQuery ''template-db''])
     = [Inl (Error (''D'' @ i_acute @ ''a no v'' @ a_acute @ ''lido: Funday''))] \<and>
   generateWeek exampleConfig (exampleHost [fundayPage]) [] =
     (Inr \<lparr>success = True, created = 0, failed = 0, message = None, errors = Some [],
           error = None\<rparr>,
      [DatabasesRetrieve ''template-db'', DatabasesRetrieve ''calendar-db'',
       DatabasesQuery ''template-db'', NewDate])"
  by code_simp




section \<open>Claims about what is written\<close>

text \<open>
  Claim C9. Every event the transform derives has the time zone label
  \<^verbatim>\<open>America/Bogota\<close>, and so has the request built from it; every page creation that a
  run of \<^verbatim>\<open>generateWeek\<close> asks for carries that label; and a run with another configured
  time zone, everything else equal, gives the same result and the same trace.
\<close>

theorem time_zone_always_Bogota:
  "(transformTaskToEvent h task w = (Inr ev, w') \<longrightarrow>
      time_zone (event_date ev) = ''America/Bogota'' \<and>
      time_zone (Date_date (createRequestOf cfg ev)) = ''America/Bogota'') \<and>
   (PagesCreate rq \<in> set (drop (length w) (snd (generateWeek cfg h w))) \<longrightarrow>
      time_zone (Date_date rq) = ''America/Bogota'') \<and>
   generateWeek (cfg\<lparr>timezone := z\<rparr>) h w = generateWeek cfg h w"
proof -
  have ev: "\<And>task w ev w'. transformTaskToEvent h task w = (Inr ev, w') \<Longrightarrow>
      time_zone (event_date ev) = ''America/Bogota'' \<and>
      time_zone (Date_date (createRequestOf cfg ev)) = ''America/Bogota''"
    by (auto dest!: transformTaskToEvent_Inr simp: createRequestOf_def)
  have a: "transformTaskToEvent h task w = (Inr ev, w') \<longrightarrow>
      time_zone (event_date ev) = ''America/Bogota'' \<and>
      time_zone (Date_date (createRequestOf cfg ev)) = ''America/Bogota''"
    using ev by blast
  have b: "PagesCreate rq \<in> set (drop (length w) (snd (generateWeek cfg h w))) \<longrightarrow>
      time_zone (Date_date rq) = ''America/Bogota''"
  proof
    assume "PagesCreate rq \<in> set (drop (length w) (snd (generateWeek cfg h w)))"
    then have "rq \<in> {rq. PagesCreate rq \<in> set (drop (length w) (snd (generateWeek cfg h w)))}"
      by simp
    then obtain tasks w2 where
      "rq \<in> createRequestOf cfg ` set (succeeded (transformOutcomes h tasks w2))"
      unfolding generateWeek_requests by (auto split: prod.splits sum.splits)
    then obtain e i where rq: "rq = createRequestOf cfg e"
      and "fst (transformTaskToEvent h (tasks ! i) (w2 @ replicate i NewDate)) = Inr e"
      unfolding set_succeeded_transformOutcomes by auto
    then have "transformTaskToEvent h (tasks ! i) (w2 @ replicate i NewDate)
                 = (Inr e, snd (transformTaskToEvent h (tasks ! i) (w2 @ replicate i NewDate)))"
      by (metis prod.collapse)
    from ev [OF this] rq show "time_zone (Date_date rq) = ''America/Bogota''" by simp
  qed
  have c: "generateWeek (cfg\<lparr>timezone := z\<rparr>) h w = generateWeek cfg h w"
    unfolding generateWeek_def generateWeek_try_timezone ..
  from a b c show ?thesis by blast
qed

theorem time_zone_always_Bogota_witness:
  "transformTaskToEvent (exampleHost [standupPage]) standup [] = (Inr standupEvent, [NewDate]) \<and>
   PagesCreate (createRequestOf exampleConfig standupEvent)
     \<in> set (drop (length ([] :: world))
              (snd (generateWeek exampleConfig (exampleHost [standupPage]) []))) \<and>
   time_zone (event_date standupEvent) = ''America/Bogota'' \<and>
   time_zone (Date_date (createRequestOf exampleConfig standupEvent)) = ''America/Bogota'' \<and>
   generateWeek (exampleConfig\<lparr>timezone := ''Europe/Madrid''\<rparr>) (exampleHost [standupPage]) []
     = generateWeek exampleConfig (exampleHost [standupPage]) []"
proof -
  have t: "transformTaskToEvent (exampleHost [standupPage]) standup [] = (Inr standupEvent, [NewDate])"
    by code_simp
  have m: "PagesCreate (createRequestOf exampleConfig standupEvent)
     \<in> set (drop (length ([] :: world))
              (snd (generateWeek exampleConfig (exampleHost [standupPage]) [])))"
    by code_simp
  show ?thesis
    using t m
      time_zone_always_Bogota
        [where h = "exampleHost [standupPage]" and task = standup and w = "[]"
           and ev = standupEvent and w' = "[NewDate]" and cfg = exampleConfig
           and rq = "createRequestOf exampleConfig standupEvent" and z = "''Europe/Madrid''"]
    by blast
qed

text \<open>
  Claim C10. The duration of a parsed template page is 60 when the Duration property is
  absent, when its number is null and when its number is 0, and is the number itself
  otherwise, negative numbers included. That number reaches the transform unchanged: an
  event derived from the page ends that many minutes after its start (before it, for a
  negative number).
\<close>

theorem parseTemplatePage_duration:
  "task_duration (parseTemplatePage pg) =
     (case prop_Duration pg of
        None \<Rightarrow> 60
      | Some p \<Rightarrow> (case number p of None \<Rightarrow> 60 | Some n \<Rightarrow> if n = 0 then 60 else n)) \<and>
   (prop_Duration pg = Some p \<and> number p = Some n \<and> n \<noteq> 0 \<and>
    transformTaskToEvent h (parseTemplatePage pg) w = (Inr ev, w') \<longrightarrow>
      isoTime (end' (event_date ev)) - isoTime (start (event_date ev)) = n * 60 * 1000)"
proof -
  have a: "task_duration (parseTemplatePage pg) =
     (case prop_Duration pg of
        None \<Rightarrow> 60
      | Some p \<Rightarrow> (case number p of None \<Rightarrow> 60 | Some n \<Rightarrow> if n = 0 then 60 else n))"
    by (simp add: parseTemplatePage_def extractNumber_def split: option.splits)
  have b: "prop_Duration pg = Some p \<and> number p = Some n \<and> n \<noteq> 0 \<and>
    transformTaskToEvent h (parseTemplatePage pg) w = (Inr ev, w') \<longrightarrow>
      isoTime (end' (event_date ev)) - isoTime (start (event_date ev)) = n * 60 * 1000"
  proof (intro impI, elim conjE)
    assume p: "prop_Duration pg = Some p" "number p = Some n" "n \<noteq> 0"
      and t: "transformTaskToEvent h (parseTemplatePage pg) w = (Inr ev, w')"
    from a p have "task_duration (parseTemplatePage pg) = n" by simp
    with transformTaskToEvent_Inr [OF t]
    show "isoTime (end' (event_date ev)) - isoTime (start (event_date ev)) = n * 60 * 1000"
      by auto
  qed
  from a b show ?thesis by blast
qed

theorem parseTemplatePage_duration_witness:
  "prop_Duration napPage
     = Some \<lparr>title = None, select = None, rich_text = None, number = Some (- 30)\<rparr> \<and>
   number \<lparr>title = None, select = None, rich_text = None, number = Some (- 30)\<rparr> = Some (- 30) \<and>
   (- 30 :: int) \<noteq> 0 \<and>
   transformTaskToEvent (exampleHost []) (parseTemplatePage napPage) [] = (Inr napEvent, [NewDate]) \<and>
   task_duration (parseTemplatePage napPage) = - 30 \<and>
   task_duration (parseTemplatePage gymPage) = 60 \<and>
   isoTime (end' (event_date napEvent)) - isoTime (start (event_date napEvent)) = - 30 * 60 * 1000"
proof -
  let ?p = "\<lparr>title = None, select = None, rich_text = None, number = Some (- 30 :: int)\<rparr>"
  have p: "prop_Duration napPage = Some ?p"
    by (simp add: napPage_def templatePage_def)
  have t: "transformTaskToEvent (exampleHost []) (parseTemplatePage napPage) []
             = (Inr napEvent, [NewDate])"
    by code_simp
  have g: "prop_Duration gymPage
             = Some \<lparr>title = None, select = None, rich_text = None, number = None\<rparr>"
    by (simp add: gymPage_def templatePage_def)
  show ?thesis
    using p t
      parseTemplatePage_duration
        [where pg = napPage and p = ?p and n = "- 30" and h = "exampleHost []" and w = "[]"
           and ev = napEvent and w' = "[NewDate]"]
      parseTemplatePage_duration [of gymPage, THEN conjunct1]
    by (simp add: g)
qed

end
